theory Spec2Isabelle
  imports Main "HOL-Library.Word"
begin

unbundle bit_operations_syntax

section \<open>The in-process backend of the generic metadata builder\<close>

text \<open>
  A shallow embedding of \<^verbatim>\<open>stdlib/public/runtime/GenericMetadataBuilder.cpp\<close>: the
  in-process reader/writer (buffers, writable data, symbol lookup, logging) and the harness
  \<^verbatim>\<open>validateExternalGenericMetadataBuilder\<close> that builds a generic value metadata a
  second time and compares it with the original.

  The \<^verbatim>\<open>InProcess\<close> runtime is taken on a 64-bit target: \<^verbatim>\<open>uintptr_t\<close>,
  \<^verbatim>\<open>StoredPointer\<close> and \<^verbatim>\<open>size_t\<close> are 64-bit words whose arithmetic wraps
  around. Memory is a map from addresses to bytes; a pointer-sized field occupies eight
  bytes, least significant byte first.
\<close>

type_synonym addr = "64 word"
type_synonym size_t = "64 word"
type_synonym byte = "8 word"
type_synonym memory = "addr \<Rightarrow> byte"

text \<open>A \<^verbatim>\<open>BuilderError\<close> carries its formatted message; \<^verbatim>\<open>BuilderErrorOr<T>\<close> is
  the sum of an error (\<open>Inl\<close>) and a value (\<open>Inr\<close>).\<close>

type_synonym BuilderError = string

subsection \<open>Buffer\<close>

text \<open>\<^verbatim>\<open>Buffer<T>\<close> wraps one pointer; the element type \<^verbatim>\<open>T\<close> only directs the C++
  casts and leaves no trace in the value.\<close>

record Buffer =
  ptr :: addr

definition Buffer_default :: Buffer where
  "Buffer_default = \<lparr>ptr = 0\<rparr>"

definition cast :: "Buffer \<Rightarrow> Buffer" where
  "cast b = \<lparr>ptr = ptr b\<rparr>"

definition isNull :: "Buffer \<Rightarrow> bool" where
  "isNull b = (ptr b = 0)"

definition getAddress :: "Buffer \<Rightarrow> 64 word" where
  "getAddress b = ptr b"

text \<open>A pointer-sized load and store, \<^verbatim>\<open>*p\<close> and \<^verbatim>\<open>*p = v\<close> in the source.\<close>

fun loadBytes :: "memory \<Rightarrow> addr \<Rightarrow> nat \<Rightarrow> addr" where
  "loadBytes m p 0 = 0"
| "loadBytes m p (Suc n) = ucast (m p) OR push_bit 8 (loadBytes m (p + 1) n)"

definition loadPointer :: "memory \<Rightarrow> addr \<Rightarrow> addr" where
  "loadPointer m p = loadBytes m p 8"

definition storePointer :: "memory \<Rightarrow> addr \<Rightarrow> addr \<Rightarrow> memory" where
  "storePointer m p v = (\<lambda>x. if x - p < 8 then ucast (drop_bit (8 * unat (x - p)) v) else m x)"

text \<open>The resolve operations that dereference an absolute pointer field. None of them
  fails in process. (The overloads for relative pointers call \<^verbatim>\<open>get()\<close> of the pointer
  classes, which are declared elsewhere.)\<close>

definition resolvePointer_uintptr :: "memory \<Rightarrow> addr \<Rightarrow> BuilderError + Buffer" where
  "resolvePointer_uintptr m p = Inr \<lparr>ptr = loadPointer m p\<rparr>"

definition resolvePointer :: "memory \<Rightarrow> addr \<Rightarrow> BuilderError + Buffer" where
  "resolvePointer m p = Inr \<lparr>ptr = loadPointer m p\<rparr>"

definition resolveFunctionPointer :: "memory \<Rightarrow> addr \<Rightarrow> BuilderError + Buffer" where
  "resolveFunctionPointer m p = Inr \<lparr>ptr = loadPointer m p\<rparr>"

subsection \<open>WritableData\<close>

text \<open>\<^verbatim>\<open>WritableData<T>\<close> is a buffer together with the byte size of its region. The field
  \<^verbatim>\<open>size\<close> is called \<open>dataSize\<close> here.\<close>

record WritableData = Buffer +
  dataSize :: size_t

text \<open>\<^verbatim>\<open>checkPtr\<close> is a single \<^verbatim>\<open>assert\<close>. The asserted condition is \<open>inBounds\<close>;
  with \<^verbatim>\<open>NDEBUG\<close> the assertion is compiled out, otherwise its failure aborts the
  process, which is the result \<open>None\<close>.\<close>

definition inBounds :: "WritableData \<Rightarrow> addr \<Rightarrow> bool" where
  "inBounds d toCheck = (toCheck - ptr d < dataSize d)"

definition checkPtr :: "bool \<Rightarrow> WritableData \<Rightarrow> addr \<Rightarrow> unit option" where
  "checkPtr ndebug d toCheck = (if ndebug \<or> inBounds d toCheck then Some () else None)"

text \<open>The write operations, one definition for each overload of the source, in its order:
  \<^verbatim>\<open>writePointer(StoredPointer *, Buffer<U>)\<close>, \<^verbatim>\<open>writePointer(U **, Buffer<U>)\<close>,
  \<^verbatim>\<open>writePointer(const U **, Buffer<U>)\<close>,
  \<^verbatim>\<open>writePointer(const Metadata **, GenericArgument)\<close>,
  \<^verbatim>\<open>writePointer(To *, Buffer<From>)\<close> and \<^verbatim>\<open>writeFunctionPointer(U *, Buffer<const char>)\<close>.
  Each returns the memory after the store, or \<open>None\<close> when the assertion aborts.\<close>

definition writePointer_StoredPointer ::
  "bool \<Rightarrow> WritableData \<Rightarrow> addr \<Rightarrow> Buffer \<Rightarrow> memory \<Rightarrow> memory option" where
  "writePointer_StoredPointer ndebug d to target m =
     (case checkPtr ndebug d to of
        None \<Rightarrow> None
      | Some _ \<Rightarrow> Some (storePointer m to (ptr target)))"

definition writePointer_ptr ::
  "bool \<Rightarrow> WritableData \<Rightarrow> addr \<Rightarrow> Buffer \<Rightarrow> memory \<Rightarrow> memory option" where
  "writePointer_ptr ndebug d to target m =
     (case checkPtr ndebug d to of
        None \<Rightarrow> None
      | Some _ \<Rightarrow> Some (storePointer m to (ptr target)))"

definition writePointer_const_ptr ::
  "bool \<Rightarrow> WritableData \<Rightarrow> addr \<Rightarrow> Buffer \<Rightarrow> memory \<Rightarrow> memory option" where
  "writePointer_const_ptr ndebug d to target m =
     (case checkPtr ndebug d to of
        None \<Rightarrow> None
      | Some _ \<Rightarrow> Some (storePointer m to (ptr target)))"

definition writePointer_GenericArgument ::
  "bool \<Rightarrow> WritableData \<Rightarrow> addr \<Rightarrow> addr \<Rightarrow> memory \<Rightarrow> memory option" where
  "writePointer_GenericArgument ndebug d to target m =
     (case checkPtr ndebug d to of
        None \<Rightarrow> None
      | Some _ \<Rightarrow> Some (storePointer m to target))"

definition writePointer_To ::
  "bool \<Rightarrow> WritableData \<Rightarrow> addr \<Rightarrow> Buffer \<Rightarrow> memory \<Rightarrow> memory option" where
  "writePointer_To ndebug d to target m =
     (case checkPtr ndebug d to of
        None \<Rightarrow> None
      | Some _ \<Rightarrow> Some (storePointer m to (ptr target)))"

definition writeFunctionPointer ::
  "bool \<Rightarrow> WritableData \<Rightarrow> addr \<Rightarrow> Buffer \<Rightarrow> memory \<Rightarrow> memory option" where
  "writeFunctionPointer ndebug d to target m =
     (case checkPtr ndebug d to of
        None \<Rightarrow> None
      | Some _ \<Rightarrow> (let castTarget = ptr target in Some (storePointer m to castTarget)))"

subsection \<open>Diagnostic output and the process state\<close>

text \<open>Text reaches the standard error stream through \<^verbatim>\<open>fputs\<close> and through the
  \<^verbatim>\<open>printf\<close> family. A formatted write is recorded with its format string and its
  arguments, in the order of the calls.\<close>

datatype printf_arg = StringArg string | UnsignedArg nat | IntArg int | PointerArg addr

datatype written = Fputs string | Fprintf string "printf_arg list"

text \<open>The part of the process that the file reads and changes: the value of
  \<^verbatim>\<open>SWIFT_DEBUG_VALIDATE_EXTERNAL_GENERIC_METADATA_BUILDER()\<close>, read at every call; what
  has been written to \<^verbatim>\<open>stderr\<close>; the regions handed out by \<^verbatim>\<open>allocate\<close>; and
  memory.\<close>

record world =
  debugLevel :: nat
  err :: "written list"
  allocations :: "(addr \<times> size_t) list"
  mem :: memory

definition emit :: "written list \<Rightarrow> world \<Rightarrow> world" where
  "emit out w = w\<lparr>err := err w @ out\<rparr>"

definition isLoggingEnabled :: bool where
  "isLoggingEnabled = True"

definition log :: "string \<Rightarrow> nat \<Rightarrow> string \<Rightarrow> string \<Rightarrow> printf_arg list \<Rightarrow> world \<Rightarrow> world" where
  "log filename line function fmt args w =
     (if debugLevel w < 2 then w
      else emit [Fprintf ''%s:%u:%s: '' [StringArg filename, UnsignedArg line, StringArg function],
                 Fprintf fmt args,
                 Fputs [CHR 0x0A]] w)"

definition validationLog :: "bool \<Rightarrow> string \<Rightarrow> printf_arg list \<Rightarrow> world \<Rightarrow> world" where
  "validationLog isValidationFailure fmt args w =
     (if \<not> isValidationFailure \<and> debugLevel w < 2 then w
      else emit [Fputs ''GenericMetadataBuilder validation: '',
                 Fprintf fmt args,
                 Fputs [CHR 0x0A]] w)"

definition printToStderr :: "string \<Rightarrow> printf_arg list \<Rightarrow> world \<Rightarrow> world" where
  "printToStderr fmt args w = emit [Fprintf fmt args] w"

subsection \<open>Symbol lookup\<close>

text \<open>The dynamic linker is outside the file. A platform says whether \<^verbatim>\<open>USE_DLADDR\<close> is
  defined and what \<^verbatim>\<open>dladdr\<close> and \<^verbatim>\<open>dlsym\<close> answer: \<^verbatim>\<open>dladdr\<close> returns 0
  (here \<open>None\<close>) or fills a \<^verbatim>\<open>Dl_info\<close>, whose two names may be null pointers;
  \<^verbatim>\<open>dlsym\<close> returns an address, 0 when there is no such symbol.\<close>

record Dl_info =
  dli_fname :: "string option"
  dli_fbase :: addr
  dli_sname :: "string option"
  dli_saddr :: addr

record platform =
  USE_DLADDR :: bool
  dladdr :: "addr \<Rightarrow> Dl_info option"
  dlsym :: "string \<Rightarrow> addr"

record SymbolInfo =
  symbolName :: string
  libraryName :: string
  pointerOffset :: "64 word"

text \<open>\<^verbatim>\<open>strrchr(s, c)\<close> for a character \<open>c\<close> other than the terminator: the part of \<open>s\<close>
  from the last occurrence of \<open>c\<close>, or a null pointer.\<close>

fun strrchr :: "string \<Rightarrow> char \<Rightarrow> string option" where
  "strrchr [] c = None"
| "strrchr (x # xs) c =
     (case strrchr xs c of
        Some r \<Rightarrow> Some r
      | None \<Rightarrow> if x = c then Some (x # xs) else None)"

definition getSymbolInfo :: "platform \<Rightarrow> Buffer \<Rightarrow> SymbolInfo" where
  "getSymbolInfo pl buffer =
     (if USE_DLADDR pl then
        (case dladdr pl (ptr buffer) of
           None \<Rightarrow> \<lparr>symbolName = ''<unknown>'', libraryName = ''<unknown>'', pointerOffset = 0\<rparr>
         | Some info \<Rightarrow>
             (let fname = (case dli_fname info of None \<Rightarrow> ''<unknown>'' | Some f \<Rightarrow> f);
                  sname = (case dli_sname info of None \<Rightarrow> ''<unknown>'' | Some n \<Rightarrow> n);
                  libName = (case strrchr fname (CHR ''/'') of
                               Some slash \<Rightarrow> tl slash
                             | None \<Rightarrow> fname)
              in \<lparr>symbolName = sname, libraryName = libName,
                  pointerOffset = getAddress buffer - dli_fbase info\<rparr>))
      else \<lparr>symbolName = ''<unknown>'', libraryName = ''<unknown>'', pointerOffset = 0\<rparr>)"

text \<open>\<^verbatim>\<open>getSymbolPointer\<close> logs the lookup through \<^verbatim>\<open>LOG\<close>, so it returns the
  state as well.\<close>

definition getSymbolPointer :: "platform \<Rightarrow> string \<Rightarrow> world \<Rightarrow> (BuilderError + Buffer) \<times> world" where
  "getSymbolPointer pl name w =
     (if USE_DLADDR pl then
        (let p = dlsym pl name;
             w' = log ''GenericMetadataBuilder.cpp'' 222 ''getSymbolPointer''
                    (''getSymbolPointer('' @ [CHR 0x22] @ ''%s'' @ [CHR 0x22] @ '') -> %p'')
                    [StringArg name, PointerArg p] w
         in if p = 0
            then (Inl (''dlsym could not find symbol '' @ [CHR 0x27] @ name @ [CHR 0x27]), w')
            else (Inr \<lparr>ptr = p\<rparr>, w'))
      else (Inl ''getSymbolPointer is not implemented on this platform'', w))"

subsection \<open>Value witness tables\<close>

text \<open>\<^verbatim>\<open>equalVWTs\<close> is generated from \<^verbatim>\<open>swift/ABI/ValueWitness.def\<close>, which is not part
  of this file. The table of entries is therefore a parameter: the list of entries the
  include yields under \<^verbatim>\<open>WANT_ONLY_REQUIRED_VALUE_WITNESSES\<close> and the list it yields
  under \<^verbatim>\<open>WANT_ONLY_ENUM_VALUE_WITNESSES\<close>, each entry naming a field of the table by
  its \<^verbatim>\<open>LOWER_ID\<close>.\<close>

datatype 'id entry = FUNCTION_VALUE_WITNESS 'id | VALUE_WITNESS 'id

fun LOWER_ID :: "'id entry \<Rightarrow> 'id" where
  "LOWER_ID (FUNCTION_VALUE_WITNESS i) = i"
| "LOWER_ID (VALUE_WITNESS i) = i"

datatype ValueWitnessFlags = ValueWitnessFlags (getOpaqueValue: "32 word")

datatype witness = Function addr | Data size_t | Flags ValueWitnessFlags

text \<open>\<^verbatim>\<open>unwrapVWTField\<close> has two overloads: the template returns its argument, the one for
  \<^verbatim>\<open>ValueWitnessFlags\<close> returns the opaque value.\<close>

datatype unwrapped = Field witness | Opaque "32 word"

fun unwrapVWTField :: "witness \<Rightarrow> unwrapped" where
  "unwrapVWTField (Flags field) = Opaque (getOpaqueValue field)"
| "unwrapVWTField field = Field field"

text \<open>A value witness table gives each required field a value. An
  \<^verbatim>\<open>EnumValueWitnessTable\<close> extends it with the enum fields;
  \<^verbatim>\<open>dyn_cast<EnumValueWitnessTable>\<close> yields them, or a null pointer for a table that is
  not an enum table.\<close>

record 'id ValueWitnessTable =
  requiredFields :: "'id \<Rightarrow> witness"
  enumFields :: "('id \<Rightarrow> witness) option"

definition dyn_cast_EnumValueWitnessTable ::
  "'id ValueWitnessTable \<Rightarrow> ('id \<Rightarrow> witness) option" where
  "dyn_cast_EnumValueWitnessTable t = enumFields t"

text \<open>The first include: one \<^verbatim>\<open>if (...) return false;\<close> for each entry, in the order of
  the table. The result says whether control falls through all of them.\<close>

fun requiredWitnessesEqual ::
  "'id entry list \<Rightarrow> ('id \<Rightarrow> witness) \<Rightarrow> ('id \<Rightarrow> witness) \<Rightarrow> bool" where
  "requiredWitnessesEqual [] a b = True"
| "requiredWitnessesEqual (FUNCTION_VALUE_WITNESS i # es) a b =
     (if a i \<noteq> b i then False else requiredWitnessesEqual es a b)"
| "requiredWitnessesEqual (VALUE_WITNESS i # es) a b =
     (if unwrapVWTField (a i) \<noteq> unwrapVWTField (b i) then False
      else requiredWitnessesEqual es a b)"

text \<open>The second include is made with \<^verbatim>\<open>VALUE_WITNESS\<close> alone defined, so every entry
  it yields is compared through \<^verbatim>\<open>unwrapVWTField\<close>, on the enum views of the two
  tables.\<close>

fun enumWitnessesEqual ::
  "'id entry list \<Rightarrow> ('id \<Rightarrow> witness) \<Rightarrow> ('id \<Rightarrow> witness) \<Rightarrow> bool" where
  "enumWitnessesEqual [] enumA enumB = True"
| "enumWitnessesEqual (e # es) enumA enumB =
     (if unwrapVWTField (enumA (LOWER_ID e)) \<noteq> unwrapVWTField (enumB (LOWER_ID e)) then False
      else enumWitnessesEqual es enumA enumB)"

definition equalVWTs ::
  "'id entry list \<Rightarrow> 'id entry list \<Rightarrow> 'id ValueWitnessTable \<Rightarrow> 'id ValueWitnessTable \<Rightarrow> bool" where
  "equalVWTs required enumOnly a b =
     (if \<not> requiredWitnessesEqual required (requiredFields a) (requiredFields b) then False
      else
        (case (dyn_cast_EnumValueWitnessTable a, dyn_cast_EnumValueWitnessTable b) of
           (None, None) \<Rightarrow> True
         | (Some enumA, Some enumB) \<Rightarrow> enumWitnessesEqual enumOnly enumA enumB
         | _ \<Rightarrow> False))"

subsection \<open>The builder and the allocator\<close>

text \<open>\<^verbatim>\<open>GenericMetadataBuilder\<close> is a template over the reader/writer and is defined in
  a header outside this file. Whatever it computes, it acts on the process only through
  the reader/writer it is given. A call of the builder is therefore a tree of requests:
  it logs through \<^verbatim>\<open>LOG\<close>, allocates through \<^verbatim>\<open>allocate\<close>, stores into memory, and
  at last returns its result. A \<open>Stores\<close> step stands for the stores the builder makes
  between two such requests, whatever they are; the bounds assertion of a write operation
  either holds, and the write is such a store, or aborts the process inside the builder,
  and then the harness does not go on. Every path of the tree is finite: a builder call
  returns.\<close>

datatype 'a builder =
    Return 'a
  | CallLog string nat string string "printf_arg list" "'a builder"
  | CallAllocate size_t "WritableData \<Rightarrow> 'a builder"
  | Stores "memory \<Rightarrow> memory" "'a builder"

record TypeContextDescriptor =
  isValueTypeDescriptor :: bool
  isGeneric :: bool
  DefaultInstantiationPattern :: addr

definition dyn_cast_ValueTypeDescriptor :: "TypeContextDescriptor \<Rightarrow> TypeContextDescriptor option" where
  "dyn_cast_ValueTypeDescriptor description =
     (if isValueTypeDescriptor description then Some description else None)"

text \<open>The engine: the three entry points of the builder that the harness calls, and
  \<^verbatim>\<open>MetadataAllocator::Allocate\<close>, which chooses the address of a new region from the
  regions handed out so far and the size. \<^verbatim>\<open>initializeGenericMetadata\<close> takes the
  address of the metadata; the cast \<^verbatim>\<open>asFullMetadata\<close> is part of it.\<close>

record engine =
  MetadataAllocator_Allocate :: "(addr \<times> size_t) list \<Rightarrow> size_t \<Rightarrow> addr"
  extraDataSize :: "TypeContextDescriptor \<Rightarrow> addr \<Rightarrow> (BuilderError + size_t) builder"
  buildGenericValueMetadata ::
    "TypeContextDescriptor \<Rightarrow> addr \<Rightarrow> addr \<Rightarrow> size_t \<Rightarrow> (BuilderError + WritableData \<times> size_t) builder"
  initializeGenericMetadata :: "addr \<Rightarrow> BuilderError option builder"

definition allocate :: "engine \<Rightarrow> size_t \<Rightarrow> world \<Rightarrow> WritableData \<times> world" where
  "allocate eng size' w =
     (let bytes = MetadataAllocator_Allocate eng (allocations w) size'
      in (\<lparr>ptr = bytes, dataSize = size'\<rparr>,
          w\<lparr>allocations := allocations w @ [(bytes, size')]\<rparr>))"

primrec run :: "engine \<Rightarrow> 'a builder \<Rightarrow> world \<Rightarrow> 'a \<times> world" where
  "run eng (Return x) w = (x, w)"
| "run eng (CallLog filename line function fmt args k) w =
     run eng k (log filename line function fmt args w)"
| "run eng (CallAllocate size' k) w =
     (case allocate eng size' w of (d, w') \<Rightarrow> run eng (k d) w')"
| "run eng (Stores f k) w = run eng k (w\<lparr>mem := f (mem w)\<rparr>)"

definition allocateGenericValueMetadata ::
  "engine \<Rightarrow> TypeContextDescriptor \<Rightarrow> addr \<Rightarrow> addr \<Rightarrow> size_t \<Rightarrow> world
     \<Rightarrow> (BuilderError + addr) \<times> world" where
  "allocateGenericValueMetadata eng description arguments pattern extraDataSize' w =
     (case run eng (buildGenericValueMetadata eng description arguments pattern extraDataSize') w of
        (Inl error, w') \<Rightarrow> (Inl error, w')
      | (Inr (data, offset), w') \<Rightarrow> (Inr (ptr data + offset), w'))"

definition initializeGenericValueMetadata :: "engine \<Rightarrow> addr \<Rightarrow> world \<Rightarrow> bool \<times> world" where
  "initializeGenericValueMetadata eng metadata w =
     (case run eng (initializeGenericMetadata eng metadata) w of
        (Some error, w') \<Rightarrow>
          (False, emit [Fprintf ''swift_initializeGenericValueMetadata failed: %s'' [StringArg error]] w')
      | (None, w') \<Rightarrow> (True, w'))"

definition genericValueDataExtraSize ::
  "engine \<Rightarrow> TypeContextDescriptor \<Rightarrow> addr \<Rightarrow> world \<Rightarrow> (BuilderError + size_t) \<times> world" where
  "genericValueDataExtraSize eng description pattern w =
     run eng (extraDataSize eng description pattern) w"

subsection \<open>The validation harness\<close>

text \<open>What the comparison uses from the rest of the runtime: \<^verbatim>\<open>sizeof(ValueMetadata)\<close>;
  the two entry lists of \<^verbatim>\<open>ValueWitness.def\<close>; the value witness table that
  \<^verbatim>\<open>asFullMetadata(m)->ValueWitnesses\<close> points to; \<^verbatim>\<open>swift_getTypeName\<close>; and the
  builder's \<^verbatim>\<open>Dumper\<close>, given as the calls of its print callback, in order, and its
  result.\<close>

record 'id abi =
  sizeof_ValueMetadata :: size_t
  requiredValueWitnesses :: "'id entry list"
  enumValueWitnesses :: "'id entry list"
  ValueWitnesses :: "memory \<Rightarrow> addr \<Rightarrow> 'id ValueWitnessTable"
  swift_getTypeName :: "addr \<Rightarrow> bool \<Rightarrow> string"
  Dumper_dumpMetadata :: "memory \<Rightarrow> addr \<Rightarrow> (string \<times> printf_arg list) list \<times> BuilderError option"

definition dumpMetadata :: "'id abi \<Rightarrow> addr \<Rightarrow> world \<Rightarrow> BuilderError option \<times> world" where
  "dumpMetadata abi metadata w =
     (case Dumper_dumpMetadata abi (mem w) metadata of
        (prints, result) \<Rightarrow> (result, fold (\<lambda>(fmt, args). printToStderr fmt args) prints w))"

text \<open>\<^verbatim>\<open>memcmp\<close>: zero when the first \<open>n\<close> bytes agree, otherwise the difference of the
  first two bytes that differ, read as unsigned.\<close>

fun memcmp :: "memory \<Rightarrow> addr \<Rightarrow> addr \<Rightarrow> nat \<Rightarrow> int" where
  "memcmp m s1 s2 0 = 0"
| "memcmp m s1 s2 (Suc n) =
     (if m s1 \<noteq> m s2 then uint (m s1) - uint (m s2) else memcmp m (s1 + 1) (s2 + 1) n)"

text \<open>Modelled from the spec: \<^verbatim>\<open>swift::fatalError\<close>, which is defined elsewhere in the
  runtime. It terminates the process with a fatal-error report and does not return: the call
  ends the run with the outcome \<open>FatalError\<close>, which keeps the flags and the message.\<close>

datatype outcome = Returned | FatalError nat string

text \<open>The two checks of the harness, as the source evaluates them.\<close>

definition vwtsMatch :: "'id abi \<Rightarrow> addr \<Rightarrow> addr \<Rightarrow> world \<Rightarrow> bool" where
  "vwtsMatch abi original newMetadata w =
     (let origVWT = ValueWitnesses abi (mem w) original;
          newVWT = ValueWitnesses abi (mem w) newMetadata
      in equalVWTs (requiredValueWitnesses abi) (enumValueWitnesses abi) origVWT newVWT)"

definition bytesMatch :: "'id abi \<Rightarrow> addr \<Rightarrow> addr \<Rightarrow> size_t \<Rightarrow> world \<Rightarrow> bool" where
  "bytesMatch abi original newMetadata extraDataSize' w =
     (let totalSize = sizeof_ValueMetadata abi + extraDataSize'
      in memcmp (mem w) original newMetadata (unat totalSize) = 0)"

text \<open>The comparison stage: the source from the reading of the two value witness tables to
  the end of the function.\<close>

definition compareAndReport ::
  "'id abi \<Rightarrow> addr \<Rightarrow> addr \<Rightarrow> size_t \<Rightarrow> world \<Rightarrow> outcome \<times> world" where
  "compareAndReport abi original newMetadata extraDataSize' w =
     (let equal0 = True;
          (equal1, w1) =
            (if \<not> vwtsMatch abi original newMetadata w
             then (False, validationLog True ''VWTs do not match'' [] w)
             else (equal0, w));
          (equal2, w2) =
            (if \<not> bytesMatch abi original newMetadata extraDataSize' w1
             then (False, validationLog True ''Metadatas do not match'' [] w1)
             else (equal1, w1))
      in if \<not> equal2 then
           (let w3 = validationLog True ''Error! Mismatch between new/old metadata builders!'' [] w2;
                w4 = validationLog True ''Original metadata:'' [] w3;
                (r1, w5) = dumpMetadata abi original w4;
                w6 = (case r1 of
                        Some error \<Rightarrow>
                          validationLog True ''error dumping original metadata: %s'' [StringArg error] w5
                      | None \<Rightarrow> w5);
                w7 = validationLog True ''New metadata builder:'' [] w6;
                (r2, w8) = dumpMetadata abi newMetadata w7;
                w9 = (case r2 of
                        Some error \<Rightarrow>
                          validationLog True ''error dumping new metadata: %s'' [StringArg error] w8
                      | None \<Rightarrow> w8)
            in (FatalError 0 (''Fatal error: mismatched metadata.'' @ [CHR 0x0A]), w9))
         else
           (let typeName = swift_getTypeName abi original False
            in (Returned,
                validationLog False ''Validated generic metadata builder on %.*s''
                  [IntArg (int (length typeName)), StringArg typeName] w2)))"

definition validateExternalGenericMetadataBuilder ::
  "engine \<Rightarrow> 'id abi \<Rightarrow> addr \<Rightarrow> TypeContextDescriptor \<Rightarrow> addr \<Rightarrow> world \<Rightarrow> outcome \<times> world" where
  "validateExternalGenericMetadataBuilder eng abi original description arguments w =
     (case dyn_cast_ValueTypeDescriptor description of
        None \<Rightarrow> (Returned, w)
      | Some valueDescriptor \<Rightarrow>
          if isGeneric valueDescriptor then
            (let pattern = DefaultInstantiationPattern valueDescriptor
             in case genericValueDataExtraSize eng valueDescriptor pattern w of
                  (Inl error, w1) \<Rightarrow>
                    (Returned, validationLog False ''error getting extra data size: %s'' [StringArg error] w1)
                | (Inr extraDataSize', w1) \<Rightarrow>
                    (case allocateGenericValueMetadata eng valueDescriptor arguments pattern
                            extraDataSize' w1 of
                       (Inl error, w2) \<Rightarrow>
                         (Returned, validationLog False ''error allocating metadata: %s'' [StringArg error] w2)
                     | (Inr newMetadata, w2) \<Rightarrow>
                         (case initializeGenericValueMetadata eng newMetadata w2 of
                            (success, w3) \<Rightarrow>
                              if \<not> success then (Returned, w3)
                              else compareAndReport abi original newMetadata extraDataSize' w3)))
          else (Returned, w))"

subsection \<open>Notions used in the statements\<close>

text \<open>The Buffer-taking write operations, as a list.\<close>

definition writeOperations ::
  "(bool \<Rightarrow> WritableData \<Rightarrow> addr \<Rightarrow> Buffer \<Rightarrow> memory \<Rightarrow> memory option) list" where
  "writeOperations =
     [writePointer_StoredPointer, writePointer_ptr, writePointer_const_ptr, writePointer_To,
      writeFunctionPointer]"

text \<open>What one emitting call of \<^verbatim>\<open>validationLog\<close> writes.\<close>

definition validationLine :: "string \<Rightarrow> printf_arg list \<Rightarrow> written list" where
  "validationLine fmt args =
     [Fputs ''GenericMetadataBuilder validation: '', Fprintf fmt args, Fputs [CHR 0x0A]]"

text \<open>What the dumper prints for a metadata, and the line that reports its error, if it
  returns one.\<close>

definition dumpText :: "'id abi \<Rightarrow> memory \<Rightarrow> addr \<Rightarrow> written list" where
  "dumpText abi m metadata =
     map (\<lambda>(fmt, args). Fprintf fmt args) (fst (Dumper_dumpMetadata abi m metadata))"

definition dumpErrorLine :: "'id abi \<Rightarrow> memory \<Rightarrow> addr \<Rightarrow> string \<Rightarrow> written list" where
  "dumpErrorLine abi m metadata fmt =
     (case snd (Dumper_dumpMetadata abi m metadata) of
        None \<Rightarrow> []
      | Some error \<Rightarrow> validationLine fmt [StringArg error])"

text \<open>Everything the harness writes when the two metadata records differ.\<close>

definition mismatchReport :: "'id abi \<Rightarrow> addr \<Rightarrow> addr \<Rightarrow> size_t \<Rightarrow> world \<Rightarrow> written list" where
  "mismatchReport abi original newMetadata extraDataSize' w =
     (if vwtsMatch abi original newMetadata w then []
      else validationLine ''VWTs do not match'' []) @
     (if bytesMatch abi original newMetadata extraDataSize' w then []
      else validationLine ''Metadatas do not match'' []) @
     validationLine ''Error! Mismatch between new/old metadata builders!'' [] @
     validationLine ''Original metadata:'' [] @
     dumpText abi (mem w) original @
     dumpErrorLine abi (mem w) original ''error dumping original metadata: %s'' @
     validationLine ''New metadata builder:'' [] @
     dumpText abi (mem w) newMetadata @
     dumpErrorLine abi (mem w) newMetadata ''error dumping new metadata: %s''"

text \<open>The success trace, which carries the name of the type.\<close>

definition successTrace :: "'id abi \<Rightarrow> addr \<Rightarrow> written list" where
  "successTrace abi original =
     validationLine ''Validated generic metadata builder on %.*s''
       [IntArg (int (length (swift_getTypeName abi original False))),
        StringArg (swift_getTypeName abi original False)]"

subsection \<open>Concrete instances\<close>

text \<open>A small value witness table layout with three required entries and one enum entry,
  a region of sixteen bytes at \<open>0x1000\<close>, a platform that knows one symbol, and an engine
  whose three entry points return given results. They instantiate the theorems below.\<close>

definition example_required :: "nat entry list" where
  "example_required = [FUNCTION_VALUE_WITNESS 0, VALUE_WITNESS 1, VALUE_WITNESS 2]"

definition example_enumOnly :: "nat entry list" where
  "example_enumOnly = [FUNCTION_VALUE_WITNESS 3]"

definition example_fields :: "nat \<Rightarrow> witness" where
  "example_fields i =
     (if i = 0 then Function 0x100 else if i = 1 then Data 8 else Flags (ValueWitnessFlags 7))"

definition struct_table :: "nat ValueWitnessTable" where
  "struct_table = \<lparr>requiredFields = example_fields, enumFields = None\<rparr>"

definition enum_table :: "addr \<Rightarrow> nat ValueWitnessTable" where
  "enum_table getEnumTag =
     \<lparr>requiredFields = example_fields, enumFields = Some (\<lambda>i. Function getEnumTag)\<rparr>"

definition mixed_tables :: "addr \<Rightarrow> nat ValueWitnessTable" where
  "mixed_tables metadata = (if metadata = 0x2000 then enum_table 0x200 else struct_table)"

definition example_region :: WritableData where
  "example_region = \<lparr>ptr = 0x1000, dataSize = 16\<rparr>"

definition zero_memory :: memory where
  "zero_memory = (\<lambda>x. 0)"

definition example_platform :: platform where
  "example_platform =
     \<lparr>USE_DLADDR = True,
      dladdr = (\<lambda>a. if a = 0x5008
                    then Some \<lparr>dli_fname = Some ''/usr/lib/libswiftCore.so'', dli_fbase = 0x5000,
                               dli_sname = None, dli_saddr = 0\<rparr>
                    else None),
      dlsym = (\<lambda>name. if name = ''swift_retain'' then 0x5008 else 0)\<rparr>"

definition quiet_world :: world where
  "quiet_world = \<lparr>debugLevel = 0, err = [], allocations = [], mem = zero_memory\<rparr>"

definition tracing_world :: world where
  "tracing_world = \<lparr>debugLevel = 2, err = [], allocations = [], mem = zero_memory\<rparr>"

definition generic_struct :: TypeContextDescriptor where
  "generic_struct =
     \<lparr>isValueTypeDescriptor = True, isGeneric = True, DefaultInstantiationPattern = 0x3000\<rparr>"

definition generic_class :: TypeContextDescriptor where
  "generic_class =
     \<lparr>isValueTypeDescriptor = False, isGeneric = True, DefaultInstantiationPattern = 0x3000\<rparr>"

definition example_engine ::
  "(BuilderError + size_t) \<Rightarrow> BuilderError option \<Rightarrow> BuilderError option \<Rightarrow> engine" where
  "example_engine sizeResult buildError initError =
     \<lparr>MetadataAllocator_Allocate = (\<lambda>regions n. 0x1000),
      extraDataSize = (\<lambda>description pattern. Return sizeResult),
      buildGenericValueMetadata =
        (\<lambda>description arguments pattern n.
           case buildError of
             Some error \<Rightarrow> Return (Inl error)
           | None \<Rightarrow> CallAllocate (16 + n) (\<lambda>d. Return (Inr (d, 0)))),
      initializeGenericMetadata =
        (\<lambda>metadata. CallLog ''GenericMetadataBuilder.h'' 1 ''initializeGenericMetadata''
                       ''initializing %p'' [PointerArg metadata] (Return initError))\<rparr>"

definition example_abi :: "(addr \<Rightarrow> nat ValueWitnessTable) \<Rightarrow> nat abi" where
  "example_abi tables =
     \<lparr>sizeof_ValueMetadata = 16,
      requiredValueWitnesses = example_required,
      enumValueWitnesses = example_enumOnly,
      ValueWitnesses = (\<lambda>m metadata. tables metadata),
      swift_getTypeName = (\<lambda>metadata qualified. ''Box<Int>''),
      Dumper_dumpMetadata = (\<lambda>m metadata. ([(''Metadata %p'', [PointerArg metadata])], None))\<rparr>"

section \<open>Properties\<close>

lemmas example_defs =
  example_required_def example_enumOnly_def example_fields_def struct_table_def enum_table_def
  example_region_def zero_memory_def example_platform_def quiet_world_def tracing_world_def
  generic_struct_def generic_class_def example_engine_def example_abi_def

subsection \<open>Value witness tables\<close>

lemma unwrapVWTField_eq_iff: "unwrapVWTField x = unwrapVWTField y \<longleftrightarrow> x = y"
  by (cases x; cases y) (auto simp: ValueWitnessFlags.expand)

lemma requiredWitnessesEqual_iff:
  "requiredWitnessesEqual es a b \<longleftrightarrow> (\<forall>e \<in> set es. a (LOWER_ID e) = b (LOWER_ID e))"
  by (induction es a b rule: requiredWitnessesEqual.induct) (auto simp: unwrapVWTField_eq_iff)

lemma enumWitnessesEqual_iff:
  "enumWitnessesEqual es a b \<longleftrightarrow> (\<forall>e \<in> set es. a (LOWER_ID e) = b (LOWER_ID e))"
  by (induction es) (auto simp: unwrapVWTField_eq_iff)

text \<open>
  C2. \<^verbatim>\<open>equalVWTs\<close> returns true exactly when every required entry of the two tables is
  equal, the two tables agree on being enum tables, and, when both are enum tables, every
  enum entry is equal as well. When one of the tables is not an enum table the enum entries
  play no part: the result is the same for any other list \<open>enumOnly'\<close> of enum entries.
\<close>

theorem equalVWTs_iff:
  "(equalVWTs required enumOnly a b \<longleftrightarrow>
      (\<forall>e \<in> set required. requiredFields a (LOWER_ID e) = requiredFields b (LOWER_ID e)) \<and>
      (enumFields a = None \<longleftrightarrow> enumFields b = None) \<and>
      (\<forall>enumA enumB. enumFields a = Some enumA \<and> enumFields b = Some enumB \<longrightarrow>
         (\<forall>e \<in> set enumOnly. enumA (LOWER_ID e) = enumB (LOWER_ID e)))) \<and>
   (enumFields a = None \<or> enumFields b = None \<longrightarrow>
      equalVWTs required enumOnly a b = equalVWTs required enumOnly' a b)"
  by (auto simp: equalVWTs_def dyn_cast_EnumValueWitnessTable_def requiredWitnessesEqual_iff
        enumWitnessesEqual_iff split: option.splits)

theorem equalVWTs_iff_witness:
  "equalVWTs example_required example_enumOnly (enum_table 0x200) (enum_table 0x200) \<and>
   \<not> equalVWTs example_required example_enumOnly (enum_table 0x200) (enum_table 0x300) \<and>
   \<not> equalVWTs example_required example_enumOnly struct_table (enum_table 0x300) \<and>
   equalVWTs example_required example_enumOnly struct_table struct_table"
  using equalVWTs_iff [of example_required example_enumOnly "enum_table 0x200" "enum_table 0x200"]
    equalVWTs_iff [of example_required example_enumOnly "enum_table 0x200" "enum_table 0x300"]
    equalVWTs_iff [of example_required example_enumOnly struct_table "enum_table 0x300"]
    equalVWTs_iff [of example_required example_enumOnly struct_table struct_table]
  by (simp add: example_defs)

subsection \<open>Pointer-sized loads and stores\<close>

lemma offset_less_8: "i < 8 \<Longrightarrow> (of_nat i :: addr) < 8"
  by (simp add: word_less_nat_alt unat_of_nat del: of_nat_less_numeral_iff)

lemma storePointer_byte:
  "i < 8 \<Longrightarrow> storePointer m p v (p + of_nat i) = ucast (drop_bit (8 * i) v)"
  unfolding storePointer_def by (simp add: offset_less_8 unat_of_nat)

lemma loadBytes_storePointer:
  "k + n \<le> 8 \<Longrightarrow>
   loadBytes (storePointer m p v) (p + of_nat k) n = take_bit (8 * n) (drop_bit (8 * k) v)"
proof (induction n arbitrary: k)
  case 0
  then show ?case by simp
next
  case (Suc n)
  have k: "k < 8" using Suc.prems by simp
  have "loadBytes (storePointer m p v) (p + of_nat (Suc k)) n =
        take_bit (8 * n) (drop_bit (8 * Suc k) v)"
    using Suc.prems by (intro Suc.IH) simp
  then have IH: "loadBytes (storePointer m p v) (p + of_nat k + 1) n =
                 take_bit (8 * n) (drop_bit (8 * Suc k) v)"
    by (simp add: ac_simps)
  show ?case
  proof (rule bit_word_eqI)
    fix j assume j: "j < LENGTH(64)"
    have e: "8 \<le> j \<Longrightarrow> 8 * Suc k + (j - 8) = 8 * k + j" by simp
    show "bit (loadBytes (storePointer m p v) (p + of_nat k) (Suc n)) j =
          bit (take_bit (8 * Suc n) (drop_bit (8 * k) v)) j"
      using j by (auto simp add: IH storePointer_byte k bit_simps e)
  qed
qed

lemma loadPointer_storePointer: "loadPointer (storePointer m p v) p = v"
proof -
  have "take_bit 64 v = v"
    by (rule bit_word_eqI) (simp add: bit_simps)
  then show ?thesis
    using loadBytes_storePointer [of 0 8 m p v] by (simp add: loadPointer_def)
qed

subsection \<open>Bounds checking of writes\<close>

lemma inBounds_iff:
  assumes "unat (ptr d) + unat (dataSize d) \<le> 2 ^ 64"
  shows "inBounds d t \<longleftrightarrow> unat (ptr d) \<le> unat t \<and> unat t < unat (ptr d) + unat (dataSize d)"
proof -
  have "unat t < 2 ^ 64" using unsigned_less [of t, where ?'a = nat] by simp
  then show ?thesis
    using assms by (auto simp: inBounds_def word_less_nat_alt unat_sub_if')
qed

lemma not_inBounds_end: "\<not> inBounds d (ptr d + dataSize d)"
  by (simp add: inBounds_def)

lemma writeOperations_eq:
  "write \<in> set writeOperations \<Longrightarrow>
   write ndebug d t target m =
     (if ndebug \<or> inBounds d t then Some (storePointer m t (ptr target)) else None)"
  by (auto simp: writeOperations_def writePointer_StoredPointer_def writePointer_ptr_def
        writePointer_const_ptr_def writePointer_To_def writeFunctionPointer_def checkPtr_def)

lemma writePointer_GenericArgument_eq:
  "writePointer_GenericArgument ndebug d t a m =
     (if ndebug \<or> inBounds d t then Some (storePointer m t a) else None)"
  by (auto simp: writePointer_GenericArgument_def checkPtr_def)

text \<open>
  C3. Let the region \<open>d\<close> lie within the address space, so that its base plus its size does
  not exceed \<open>2 ^ 64\<close>. With assertions compiled in (\<open>ndebug = False\<close>), \<^verbatim>\<open>checkPtr\<close>
  passes for a target address \<open>t\<close> exactly when \<open>base \<le> t < base + size\<close>; it fails for the
  address \<open>base + size\<close>. Every write operation, that is each overload of
  \<^verbatim>\<open>writePointer\<close> and \<^verbatim>\<open>writeFunctionPointer\<close>, makes this check before it stores:
  outside the bounds, and at \<open>base + size\<close> in particular, it ends in the assertion failure
  \<open>None\<close>; within the bounds it stores the target at \<open>t\<close>, where it can be read back.
\<close>

theorem write_bounds_checked:
  assumes "unat (ptr d) + unat (dataSize d) \<le> 2 ^ 64"
  shows "(checkPtr False d t = Some () \<longleftrightarrow>
            unat (ptr d) \<le> unat t \<and> unat t < unat (ptr d) + unat (dataSize d)) \<and>
         checkPtr False d (ptr d + dataSize d) = None \<and>
         (\<forall>write \<in> set writeOperations.
            (\<not> (unat (ptr d) \<le> unat t \<and> unat t < unat (ptr d) + unat (dataSize d)) \<longrightarrow>
               write False d t target m = None) \<and>
            write False d (ptr d + dataSize d) target m = None \<and>
            (unat (ptr d) \<le> unat t \<and> unat t < unat (ptr d) + unat (dataSize d) \<longrightarrow>
               write ndebug d t target m = Some (storePointer m t (ptr target)) \<and>
               loadPointer (storePointer m t (ptr target)) t = ptr target)) \<and>
         (\<not> (unat (ptr d) \<le> unat t \<and> unat t < unat (ptr d) + unat (dataSize d)) \<longrightarrow>
            writePointer_GenericArgument False d t argument m = None) \<and>
         writePointer_GenericArgument False d (ptr d + dataSize d) argument m = None \<and>
         (unat (ptr d) \<le> unat t \<and> unat t < unat (ptr d) + unat (dataSize d) \<longrightarrow>
            writePointer_GenericArgument ndebug d t argument m = Some (storePointer m t argument) \<and>
            loadPointer (storePointer m t argument) t = argument)"
  using inBounds_iff [OF assms, of t] not_inBounds_end [of d]
  by (simp add: writeOperations_eq writePointer_GenericArgument_eq checkPtr_def
        loadPointer_storePointer)

theorem write_bounds_checked_witness:
  "unat (ptr example_region) + unat (dataSize example_region) \<le> 2 ^ 64 \<and>
   checkPtr False example_region 0x1010 = None \<and>
   writePointer_ptr False example_region 0x1010 \<lparr>ptr = 0x2000\<rparr> zero_memory = None \<and>
   writeFunctionPointer False example_region 0x0FFF \<lparr>ptr = 0x2000\<rparr> zero_memory = None \<and>
   writePointer_ptr False example_region 0x1008 \<lparr>ptr = 0x2000\<rparr> zero_memory =
     Some (storePointer zero_memory 0x1008 0x2000) \<and>
   loadPointer (storePointer zero_memory 0x1008 0x2000) 0x1008 = 0x2000"
proof -
  have region: "unat (ptr example_region) + unat (dataSize example_region) \<le> 2 ^ 64"
    by (simp add: example_region_def)
  show ?thesis
    using region
      write_bounds_checked [OF region, where t = "0x1008" and target = "\<lparr>ptr = 0x2000\<rparr>"
        and m = zero_memory and ndebug = False]
      write_bounds_checked [OF region, where t = "0x0FFF" and target = "\<lparr>ptr = 0x2000\<rparr>"
        and m = zero_memory and ndebug = False]
    by (simp add: writeOperations_def example_region_def)
qed

subsection \<open>Writing and resolving\<close>

text \<open>
  C4. In process, for every target and every field within the bounds of the writable data,
  a write operation succeeds and the matching resolve operation, applied to the same field
  in the memory after the write, returns a buffer whose address is the address of the
  target: \<^verbatim>\<open>writePointer\<close> followed by \<^verbatim>\<open>resolvePointer\<close> on the stored absolute
  pointer, for each overload, and \<^verbatim>\<open>writeFunctionPointer\<close> followed by
  \<^verbatim>\<open>resolveFunctionPointer\<close>.
\<close>

theorem write_then_resolve:
  assumes "inBounds d field"
  shows "(\<exists>m' b. writePointer_StoredPointer ndebug d field target m = Some m' \<and>
            resolvePointer_uintptr m' field = Inr b \<and> getAddress b = getAddress target) \<and>
         (\<exists>m' b. writePointer_ptr ndebug d field target m = Some m' \<and>
            resolvePointer m' field = Inr b \<and> getAddress b = getAddress target) \<and>
         (\<exists>m' b. writePointer_const_ptr ndebug d field target m = Some m' \<and>
            resolvePointer m' field = Inr b \<and> getAddress b = getAddress target) \<and>
         (\<exists>m' b. writePointer_To ndebug d field target m = Some m' \<and>
            resolvePointer m' field = Inr b \<and> getAddress b = getAddress target) \<and>
         (\<exists>m' b. writePointer_GenericArgument ndebug d field argument m = Some m' \<and>
            resolvePointer m' field = Inr b \<and> getAddress b = argument) \<and>
         (\<exists>m' b. writeFunctionPointer ndebug d field target m = Some m' \<and>
            resolveFunctionPointer m' field = Inr b \<and> getAddress b = getAddress target)"
  using assms
  by (simp add: writePointer_StoredPointer_def writePointer_ptr_def writePointer_const_ptr_def
        writePointer_To_def writePointer_GenericArgument_def writeFunctionPointer_def
        checkPtr_def resolvePointer_uintptr_def resolvePointer_def resolveFunctionPointer_def
        getAddress_def loadPointer_storePointer)

theorem write_then_resolve_witness:
  "inBounds example_region 0x1008 \<and>
   (\<exists>m' b. writePointer_ptr False example_region 0x1008 \<lparr>ptr = 0x2000\<rparr> zero_memory = Some m' \<and>
      resolvePointer m' 0x1008 = Inr b \<and> getAddress b = 0x2000) \<and>
   (\<exists>m' b. writeFunctionPointer False example_region 0x1008 \<lparr>ptr = 0x2000\<rparr> zero_memory = Some m' \<and>
      resolveFunctionPointer m' 0x1008 = Inr b \<and> getAddress b = 0x2000)"
proof -
  have field: "inBounds example_region 0x1008"
    by (simp add: inBounds_def example_region_def)
  show ?thesis
    using field
      write_then_resolve [OF field, where target = "\<lparr>ptr = 0x2000\<rparr>" and m = zero_memory
        and ndebug = False]
    by (simp add: getAddress_def)
qed

subsection \<open>Symbol lookup\<close>

lemma strrchr_None_iff: "strrchr s c = None \<longleftrightarrow> c \<notin> set s"
  by (induction s) (auto split: option.splits)

lemma strrchr_Some:
  "strrchr s c = Some r \<Longrightarrow> \<exists>pre rest. s = pre @ c # rest \<and> r = c # rest \<and> c \<notin> set rest"
proof (induction s arbitrary: r)
  case Nil
  then show ?case by simp
next
  case (Cons x xs)
  show ?case
  proof (cases "strrchr xs c")
    case None
    with Cons.prems have "x = c" "r = x # xs" by (auto split: if_splits)
    moreover from None have "c \<notin> set xs" by (simp add: strrchr_None_iff)
    ultimately show ?thesis by (intro exI [of _ "[]"] exI [of _ xs]) simp
  next
    case (Some r')
    with Cons.prems have "r = r'" by simp
    with Cons.IH [OF Some] obtain pre rest
      where "xs = pre @ c # rest" "r = c # rest" "c \<notin> set rest"
      by auto
    then show ?thesis by (intro exI [of _ "x # pre"] exI [of _ rest]) simp
  qed
qed

text \<open>
  C6. \<^verbatim>\<open>getSymbolInfo\<close> is total: it returns a \<^verbatim>\<open>SymbolInfo\<close> for every buffer. When
  the platform has no \<^verbatim>\<open>dladdr\<close> or \<^verbatim>\<open>dladdr\<close> cannot resolve the address, the
  result is \<open>''<unknown>''\<close>, \<open>''<unknown>''\<close> and offset 0. When the address is resolved, a
  missing symbol name is replaced by \<open>''<unknown>''\<close> and a present one is kept; a missing
  library name is replaced by \<open>''<unknown>''\<close> and a present one is cut down to what follows
  its last slash; the offset is the address minus the base of the library.
\<close>

theorem getSymbolInfo_never_fails:
  "(\<not> USE_DLADDR pl \<or> dladdr pl (ptr buffer) = None \<longrightarrow>
      getSymbolInfo pl buffer =
        \<lparr>symbolName = ''<unknown>'', libraryName = ''<unknown>'', pointerOffset = 0\<rparr>) \<and>
   (\<forall>info. USE_DLADDR pl \<and> dladdr pl (ptr buffer) = Some info \<longrightarrow>
      (dli_sname info = None \<longrightarrow> symbolName (getSymbolInfo pl buffer) = ''<unknown>'') \<and>
      (\<forall>n. dli_sname info = Some n \<longrightarrow> symbolName (getSymbolInfo pl buffer) = n) \<and>
      (dli_fname info = None \<longrightarrow> libraryName (getSymbolInfo pl buffer) = ''<unknown>'') \<and>
      (\<forall>f. dli_fname info = Some f \<longrightarrow>
         CHR ''/'' \<notin> set (libraryName (getSymbolInfo pl buffer)) \<and>
         (f = libraryName (getSymbolInfo pl buffer) \<or>
          (\<exists>dir. f = dir @ CHR ''/'' # libraryName (getSymbolInfo pl buffer)))) \<and>
      pointerOffset (getSymbolInfo pl buffer) = getAddress buffer - dli_fbase info)"
proof -
  have unk: "strrchr ''<unknown>'' (CHR ''/'') = None"
    by (simp add: strrchr_None_iff)
  have base:
    "CHR ''/'' \<notin> set (case strrchr f (CHR ''/'') of Some slash \<Rightarrow> tl slash | None \<Rightarrow> f) \<and>
     (f = (case strrchr f (CHR ''/'') of Some slash \<Rightarrow> tl slash | None \<Rightarrow> f) \<or>
      (\<exists>dir. f = dir @ CHR ''/'' #
         (case strrchr f (CHR ''/'') of Some slash \<Rightarrow> tl slash | None \<Rightarrow> f)))"
    for f
  proof (cases "strrchr f (CHR ''/'')")
    case None
    then show ?thesis using strrchr_None_iff [of f "CHR ''/''"] by simp
  next
    case (Some r)
    from strrchr_Some [OF Some] show ?thesis using Some by auto
  qed
  show ?thesis
    using base by (auto simp: getSymbolInfo_def Let_def unk split: option.splits)
qed

theorem getSymbolInfo_never_fails_witness:
  "getSymbolInfo example_platform \<lparr>ptr = 0x7000\<rparr> =
     \<lparr>symbolName = ''<unknown>'', libraryName = ''<unknown>'', pointerOffset = 0\<rparr> \<and>
   symbolName (getSymbolInfo example_platform \<lparr>ptr = 0x5008\<rparr>) = ''<unknown>'' \<and>
   CHR ''/'' \<notin> set (libraryName (getSymbolInfo example_platform \<lparr>ptr = 0x5008\<rparr>)) \<and>
   pointerOffset (getSymbolInfo example_platform \<lparr>ptr = 0x5008\<rparr>) = 8"
  using getSymbolInfo_never_fails [of example_platform "\<lparr>ptr = 0x7000\<rparr>"]
    getSymbolInfo_never_fails [of example_platform "\<lparr>ptr = 0x5008\<rparr>"]
  by (simp add: example_platform_def getAddress_def)

text \<open>
  C7. \<^verbatim>\<open>getSymbolPointer\<close> returns an error when \<^verbatim>\<open>dlsym\<close> finds no address for the
  name, and an error when the platform has no symbol lookup. Otherwise it returns the buffer
  that wraps the address found. A buffer it returns is never null.
\<close>

theorem getSymbolPointer_result:
  "(USE_DLADDR pl \<and> dlsym pl name = 0 \<longrightarrow>
      fst (getSymbolPointer pl name w) =
        Inl (''dlsym could not find symbol '' @ [CHR 0x27] @ name @ [CHR 0x27])) \<and>
   (\<not> USE_DLADDR pl \<longrightarrow>
      fst (getSymbolPointer pl name w) =
        Inl ''getSymbolPointer is not implemented on this platform'') \<and>
   (USE_DLADDR pl \<and> dlsym pl name \<noteq> 0 \<longrightarrow>
      fst (getSymbolPointer pl name w) = Inr \<lparr>ptr = dlsym pl name\<rparr>) \<and>
   (\<forall>b. fst (getSymbolPointer pl name w) = Inr b \<longrightarrow> \<not> isNull b \<and> ptr b = dlsym pl name)"
  by (auto simp: getSymbolPointer_def Let_def isNull_def)

theorem getSymbolPointer_result_witness:
  "fst (getSymbolPointer example_platform ''missing'' quiet_world) =
     Inl (''dlsym could not find symbol '' @ [CHR 0x27] @ ''missing'' @ [CHR 0x27]) \<and>
   fst (getSymbolPointer (example_platform\<lparr>USE_DLADDR := False\<rparr>) ''swift_retain'' quiet_world) =
     Inl ''getSymbolPointer is not implemented on this platform'' \<and>
   fst (getSymbolPointer example_platform ''swift_retain'' quiet_world) = Inr \<lparr>ptr = 0x5008\<rparr> \<and>
   \<not> isNull \<lparr>ptr = 0x5008\<rparr>"
  using getSymbolPointer_result [of example_platform "''missing''" quiet_world]
    getSymbolPointer_result [of "example_platform\<lparr>USE_DLADDR := False\<rparr>" "''swift_retain''"
      quiet_world]
    getSymbolPointer_result [of example_platform "''swift_retain''" quiet_world]
  by (simp add: example_platform_def)

subsection \<open>The byte comparison\<close>

lemma memcmp_eq_0_iff:
  "memcmp m s1 s2 n = 0 \<longleftrightarrow> (\<forall>i<n. m (s1 + of_nat i) = m (s2 + of_nat i))"
proof (induction n arbitrary: s1 s2)
  case 0
  then show ?case by simp
next
  case (Suc n)
  have shift: "(\<forall>i<n. m (s1 + 1 + of_nat i) = m (s2 + 1 + of_nat i)) \<longleftrightarrow>
               (\<forall>i<n. m (s1 + of_nat (Suc i)) = m (s2 + of_nat (Suc i)))"
    by (simp add: ac_simps)
  have first: "(\<forall>i<Suc n. Q i) \<longleftrightarrow> Q 0 \<and> (\<forall>i<n. Q (Suc i))" for Q
    by (auto simp: less_Suc_eq_0_disj)
  have same: "uint x = uint y \<longleftrightarrow> x = y" for x y :: byte
    by (simp add: word_uint_eq_iff)
  show ?case
    by (subst first) (simp add: Suc.IH shift same del: of_nat_Suc)
qed

text \<open>
  C9. The byte comparison of the harness covers \<^verbatim>\<open>sizeof(ValueMetadata)\<close> plus
  \<open>extraDataSize\<close> bytes of each record, from the address of the record on, and no other
  byte: provided the sum does not overflow \<^verbatim>\<open>size_t\<close>, the two records pass the check
  exactly when these bytes are the same.
\<close>

theorem bytes_compared:
  assumes "unat (sizeof_ValueMetadata abi) + unat extraDataSize' < 2 ^ 64"
  shows "bytesMatch abi original newMetadata extraDataSize' w \<longleftrightarrow>
           (\<forall>i < unat (sizeof_ValueMetadata abi) + unat extraDataSize'.
              mem w (original + of_nat i) = mem w (newMetadata + of_nat i))"
proof -
  have "unat (sizeof_ValueMetadata abi + extraDataSize') =
        unat (sizeof_ValueMetadata abi) + unat extraDataSize'"
    using assms by (simp add: unat_plus_if')
  then show ?thesis
    by (simp add: bytesMatch_def memcmp_eq_0_iff)
qed

theorem bytes_compared_witness:
  "unat (sizeof_ValueMetadata (example_abi (\<lambda>a. struct_table))) + unat (8 :: size_t) < 2 ^ 64 \<and>
   bytesMatch (example_abi (\<lambda>a. struct_table)) 0x2000 0x1000 8 quiet_world \<and>
   \<not> bytesMatch (example_abi (\<lambda>a. struct_table)) 0x2000 0x1000 8
       (quiet_world\<lparr>mem := zero_memory(0x2017 := 1)\<rparr>) \<and>
   bytesMatch (example_abi (\<lambda>a. struct_table)) 0x2000 0x1000 8
       (quiet_world\<lparr>mem := zero_memory(0x2018 := 1)\<rparr>)"
proof -
  have n: "unat (sizeof_ValueMetadata (example_abi (\<lambda>a. struct_table))) + unat (8 :: size_t) < 2 ^ 64"
    by (simp add: example_abi_def)
  let ?abi = "example_abi (\<lambda>a. struct_table)"
  have a: "bytesMatch ?abi 0x2000 0x1000 8 quiet_world"
    using bytes_compared [OF n, of "0x2000" "0x1000" quiet_world]
    by (simp add: quiet_world_def zero_memory_def)
  have b: "\<not> bytesMatch ?abi 0x2000 0x1000 8 (quiet_world\<lparr>mem := zero_memory(0x2017 := 1)\<rparr>)"
  proof
    assume "bytesMatch ?abi 0x2000 0x1000 8 (quiet_world\<lparr>mem := zero_memory(0x2017 := 1)\<rparr>)"
    then have all: "\<forall>i<24. (zero_memory(0x2017 := 1)) (0x2000 + of_nat i) =
                       (zero_memory(0x2017 := 1)) ((0x1000 :: addr) + of_nat i)"
      using bytes_compared [OF n, of "0x2000" "0x1000"
          "quiet_world\<lparr>mem := zero_memory(0x2017 := 1)\<rparr>"]
      by (simp add: example_abi_def)
    show False
      using all [THEN spec, of 23] by (simp add: zero_memory_def)
  qed
  have lt: "i < 24 \<Longrightarrow> (0x2000 :: addr) + of_nat i \<noteq> 0x2018" for i
    by (simp add: word_eq_iff_unsigned [where 'a = nat] unat_word_ariths unat_of_nat)
  have lt': "i < 24 \<Longrightarrow> (0x1000 :: addr) + of_nat i \<noteq> 0x2018" for i
    by (simp add: word_eq_iff_unsigned [where 'a = nat] unat_word_ariths unat_of_nat)
  have c: "bytesMatch ?abi 0x2000 0x1000 8 (quiet_world\<lparr>mem := zero_memory(0x2018 := 1)\<rparr>)"
    using bytes_compared [OF n, of "0x2000" "0x1000"
        "quiet_world\<lparr>mem := zero_memory(0x2018 := 1)\<rparr>"]
    by (simp add: example_abi_def zero_memory_def lt lt')
  show ?thesis
    using n a b c by simp
qed

subsection \<open>The validation harness\<close>

lemma validationLog_failure:
  "validationLog True fmt args w = w\<lparr>err := err w @ validationLine fmt args\<rparr>"
  by (simp add: validationLog_def emit_def validationLine_def)

lemma validationLog_trace:
  "validationLog False fmt args w =
     w\<lparr>err := err w @ (if debugLevel w < 2 then [] else validationLine fmt args)\<rparr>"
  by (simp add: validationLog_def emit_def validationLine_def)

lemma fold_printToStderr:
  "fold (\<lambda>(fmt, args). printToStderr fmt args) prints w =
     w\<lparr>err := err w @ map (\<lambda>(fmt, args). Fprintf fmt args) prints\<rparr>"
  by (induction prints arbitrary: w) (auto simp: printToStderr_def emit_def)

lemma dumpMetadata_eq:
  "dumpMetadata abi metadata w =
     (snd (Dumper_dumpMetadata abi (mem w) metadata),
      w\<lparr>err := err w @ dumpText abi (mem w) metadata\<rparr>)"
  by (simp add: dumpMetadata_def fold_printToStderr dumpText_def split: prod.splits)

lemma vwtsMatch_err [simp]: "vwtsMatch abi a b (w\<lparr>err := e\<rparr>) = vwtsMatch abi a b w"
  by (simp add: vwtsMatch_def)

lemma bytesMatch_err [simp]: "bytesMatch abi a b n (w\<lparr>err := e\<rparr>) = bytesMatch abi a b n w"
  by (simp add: bytesMatch_def)

lemma compareAndReport_pass:
  "vwtsMatch abi original newMetadata w \<Longrightarrow> bytesMatch abi original newMetadata n w \<Longrightarrow>
   compareAndReport abi original newMetadata n w =
     (Returned, w\<lparr>err := err w @ (if debugLevel w < 2 then [] else successTrace abi original)\<rparr>)"
  by (simp add: compareAndReport_def validationLog_trace successTrace_def Let_def)

lemma compareAndReport_fail:
  "\<not> (vwtsMatch abi original newMetadata w \<and> bytesMatch abi original newMetadata n w) \<Longrightarrow>
   compareAndReport abi original newMetadata n w =
     (FatalError 0 (''Fatal error: mismatched metadata.'' @ [CHR 0x0A]),
      w\<lparr>err := err w @ mismatchReport abi original newMetadata n w\<rparr>)"
  by (auto simp: compareAndReport_def validationLog_failure dumpMetadata_eq mismatchReport_def
        dumpErrorLine_def Let_def split: option.splits)

lemma validate_reaches_comparison:
  assumes "isValueTypeDescriptor description" "isGeneric description"
    and "genericValueDataExtraSize eng description (DefaultInstantiationPattern description) w =
           (Inr extraDataSize', w1)"
    and "allocateGenericValueMetadata eng description arguments
           (DefaultInstantiationPattern description) extraDataSize' w1 = (Inr newMetadata, w2)"
    and "initializeGenericValueMetadata eng newMetadata w2 = (True, w3)"
  shows "validateExternalGenericMetadataBuilder eng abi original description arguments w =
           compareAndReport abi original newMetadata extraDataSize' w3"
  using assms
  by (simp add: validateExternalGenericMetadataBuilder_def dyn_cast_ValueTypeDescriptor_def)

lemma validate_skips:
  "\<not> (isValueTypeDescriptor description \<and> isGeneric description) \<Longrightarrow>
   validateExternalGenericMetadataBuilder eng abi original description arguments w = (Returned, w)"
  by (auto simp: validateExternalGenericMetadataBuilder_def dyn_cast_ValueTypeDescriptor_def)

text \<open>The concrete engine, stage by stage.\<close>

lemma generic_struct_simps:
  "isValueTypeDescriptor generic_struct" "isGeneric generic_struct"
  "DefaultInstantiationPattern generic_struct = 0x3000"
  by (simp_all add: generic_struct_def)

lemma example_size:
  "genericValueDataExtraSize (example_engine r b i) description pattern w = (r, w)"
  by (simp add: genericValueDataExtraSize_def example_engine_def)

lemma example_allocate:
  "allocateGenericValueMetadata (example_engine r None i) description arguments pattern n w =
     (Inr 0x1000, w\<lparr>allocations := allocations w @ [(0x1000, 16 + n)]\<rparr>)"
  by (simp add: allocateGenericValueMetadata_def example_engine_def allocate_def)

lemma example_allocate_error:
  "allocateGenericValueMetadata (example_engine r (Some e) i) description arguments pattern n w =
     (Inl e, w)"
  by (simp add: allocateGenericValueMetadata_def example_engine_def)

lemma example_initialize:
  "run (example_engine r b i) (initializeGenericMetadata (example_engine r b i) metadata) w =
     (i, log ''GenericMetadataBuilder.h'' 1 ''initializeGenericMetadata'' ''initializing %p''
           [PointerArg metadata] w)"
  by (simp add: example_engine_def)

text \<open>
  C10. When the descriptor is not a value type descriptor, or is one that is not generic,
  \<^verbatim>\<open>validateExternalGenericMetadataBuilder\<close> returns at once and leaves the process as
  it was: nothing is allocated, nothing is written to the diagnostic stream, and the process
  is not terminated.
\<close>

theorem not_generic_value_type_returns:
  "\<not> isValueTypeDescriptor description \<or> \<not> isGeneric description \<Longrightarrow>
   validateExternalGenericMetadataBuilder eng abi original description arguments w = (Returned, w)"
  by (auto simp: validateExternalGenericMetadataBuilder_def dyn_cast_ValueTypeDescriptor_def)

theorem not_generic_value_type_returns_witness:
  "\<not> isValueTypeDescriptor generic_class \<and>
   \<not> isGeneric (generic_struct\<lparr>isGeneric := False\<rparr>) \<and>
   validateExternalGenericMetadataBuilder (example_engine (Inr 0) None None)
     (example_abi (\<lambda>a. struct_table)) 0x2000 generic_class 0x4000 tracing_world =
     (Returned, tracing_world) \<and>
   validateExternalGenericMetadataBuilder (example_engine (Inr 0) None None)
     (example_abi (\<lambda>a. struct_table)) 0x2000 (generic_struct\<lparr>isGeneric := False\<rparr>) 0x4000
     tracing_world =
     (Returned, tracing_world)"
proof -
  have h: "\<not> isValueTypeDescriptor generic_class \<or> \<not> isGeneric generic_class"
    by (simp add: generic_class_def)
  have h': "\<not> isValueTypeDescriptor (generic_struct\<lparr>isGeneric := False\<rparr>) \<or>
            \<not> isGeneric (generic_struct\<lparr>isGeneric := False\<rparr>)"
    by simp
  show ?thesis
    using h h'
      not_generic_value_type_returns [OF h, where eng = "example_engine (Inr 0) None None"
        and abi = "example_abi (\<lambda>a. struct_table)" and original = "0x2000"
        and arguments = "0x4000" and w = tracing_world]
      not_generic_value_type_returns [OF h', where eng = "example_engine (Inr 0) None None"
        and abi = "example_abi (\<lambda>a. struct_table)" and original = "0x2000"
        and arguments = "0x4000" and w = tracing_world]
    by (simp add: generic_class_def)
qed

text \<open>
  C1. Let the harness reach the comparison stage: the descriptor is a generic value type
  descriptor, the extra data size is computed, the metadata is allocated, and it is
  initialized, leaving the process in the state \<open>w3\<close>. If the value witness tables match
  and the bytes match, the call returns, and all it adds to the diagnostic stream is the
  success trace with the name of the type (which \<^verbatim>\<open>validationLog\<close> writes when the debug
  level is at least 2). If one of the two checks fails, the call writes the mismatch report,
  which holds the dump of the original metadata and the dump of the new one, and ends in
  \<^verbatim>\<open>fatalError\<close>.
\<close>

theorem comparison_stage_outcome:
  assumes "isValueTypeDescriptor description" "isGeneric description"
    and "genericValueDataExtraSize eng description (DefaultInstantiationPattern description) w =
           (Inr extraDataSize', w1)"
    and "allocateGenericValueMetadata eng description arguments
           (DefaultInstantiationPattern description) extraDataSize' w1 = (Inr newMetadata, w2)"
    and "initializeGenericValueMetadata eng newMetadata w2 = (True, w3)"
  shows "(vwtsMatch abi original newMetadata w3 \<and>
          bytesMatch abi original newMetadata extraDataSize' w3 \<longrightarrow>
            validateExternalGenericMetadataBuilder eng abi original description arguments w =
              (Returned,
               w3\<lparr>err := err w3 @ (if debugLevel w3 < 2 then [] else successTrace abi original)\<rparr>)) \<and>
         (\<not> (vwtsMatch abi original newMetadata w3 \<and>
             bytesMatch abi original newMetadata extraDataSize' w3) \<longrightarrow>
            validateExternalGenericMetadataBuilder eng abi original description arguments w =
              (FatalError 0 (''Fatal error: mismatched metadata.'' @ [CHR 0x0A]),
               w3\<lparr>err := err w3 @ mismatchReport abi original newMetadata extraDataSize' w3\<rparr>))"
  unfolding validate_reaches_comparison [OF assms]
  using compareAndReport_pass [of abi original newMetadata w3 extraDataSize']
    compareAndReport_fail [of abi original newMetadata w3 extraDataSize']
  by blast

theorem comparison_stage_outcome_witness:
  "validateExternalGenericMetadataBuilder (example_engine (Inr 0) None None)
     (example_abi (\<lambda>a. struct_table)) 0x2000 generic_struct 0x4000 quiet_world =
     (Returned, quiet_world\<lparr>allocations := [(0x1000, 16)]\<rparr>) \<and>
   validateExternalGenericMetadataBuilder (example_engine (Inr 0) None None)
     (example_abi (\<lambda>a. struct_table)) 0x2000 generic_struct 0x4000 tracing_world =
     (Returned,
      tracing_world\<lparr>allocations := [(0x1000, 16)],
        err := [Fprintf ''%s:%u:%s: ''
                  [StringArg ''GenericMetadataBuilder.h'', UnsignedArg 1,
                   StringArg ''initializeGenericMetadata''],
                Fprintf ''initializing %p'' [PointerArg 0x1000],
                Fputs [CHR 0x0A]] @
               validationLine ''Validated generic metadata builder on %.*s''
                 [IntArg 8, StringArg ''Box<Int>'']\<rparr>) \<and>
   validateExternalGenericMetadataBuilder (example_engine (Inr 0) None None)
     (example_abi mixed_tables) 0x2000 generic_struct 0x4000 quiet_world =
     (FatalError 0 (''Fatal error: mismatched metadata.'' @ [CHR 0x0A]),
      quiet_world\<lparr>allocations := [(0x1000, 16)],
        err := validationLine ''VWTs do not match'' [] @
               validationLine ''Error! Mismatch between new/old metadata builders!'' [] @
               validationLine ''Original metadata:'' [] @
               [Fprintf ''Metadata %p'' [PointerArg 0x2000]] @
               validationLine ''New metadata builder:'' [] @
               [Fprintf ''Metadata %p'' [PointerArg 0x1000]]\<rparr>)"
proof -
  let ?eng = "example_engine (Inr 0) None None"
  let ?w2 = "\<lambda>w. w\<lparr>allocations := allocations w @ [(0x1000, 16 + 0)]\<rparr>"
  let ?w3 = "\<lambda>w. log ''GenericMetadataBuilder.h'' 1 ''initializeGenericMetadata''
                   ''initializing %p'' [PointerArg 0x1000] (?w2 w)"
  have size: "genericValueDataExtraSize ?eng generic_struct
                (DefaultInstantiationPattern generic_struct) w = (Inr 0, w)" for w
    by (rule example_size)
  have alloc: "allocateGenericValueMetadata ?eng generic_struct 0x4000
                 (DefaultInstantiationPattern generic_struct) 0 w = (Inr 0x1000, ?w2 w)" for w
    by (rule example_allocate)
  have init: "initializeGenericValueMetadata ?eng 0x1000 (?w2 w) = (True, ?w3 w)" for w
    by (simp add: initializeGenericValueMetadata_def example_initialize)
  have zero: "mem (?w3 w) = zero_memory" if "mem w = zero_memory" for w
    using that by (simp add: log_def emit_def)
  have bytes: "bytesMatch (example_abi tables) 0x2000 0x1000 0 (?w3 w)"
    if "mem w = zero_memory" for tables w
    unfolding bytesMatch_def memcmp_eq_0_iff zero [OF that] by (simp add: zero_memory_def)
  have same: "vwtsMatch (example_abi (\<lambda>a. struct_table)) 0x2000 0x1000 (?w3 w)" for w
    by (simp add: vwtsMatch_def example_abi_def equalVWTs_def dyn_cast_EnumValueWitnessTable_def
          requiredWitnessesEqual_iff struct_table_def)
  have mixed: "\<not> vwtsMatch (example_abi mixed_tables) 0x2000 0x1000 (?w3 w)" for w
    by (simp add: vwtsMatch_def example_abi_def equalVWTs_def dyn_cast_EnumValueWitnessTable_def
          requiredWitnessesEqual_iff struct_table_def enum_table_def mixed_tables_def)
  have q: "mem quiet_world = zero_memory" and t: "mem tracing_world = zero_memory"
    by (simp_all add: quiet_world_def tracing_world_def)
  let ?same = "example_abi (\<lambda>a. struct_table)"
  let ?mixed = "example_abi mixed_tables"
  have r1: "validateExternalGenericMetadataBuilder ?eng ?same 0x2000 generic_struct 0x4000
              quiet_world =
            (Returned,
             (?w3 quiet_world)\<lparr>err := err (?w3 quiet_world) @
               (if debugLevel (?w3 quiet_world) < 2 then [] else successTrace ?same 0x2000)\<rparr>)"
    by (rule comparison_stage_outcome [OF generic_struct_simps(1,2) size alloc init,
          THEN conjunct1, rule_format])
      (simp only: same bytes [OF q])
  have r2: "validateExternalGenericMetadataBuilder ?eng ?same 0x2000 generic_struct 0x4000
              tracing_world =
            (Returned,
             (?w3 tracing_world)\<lparr>err := err (?w3 tracing_world) @
               (if debugLevel (?w3 tracing_world) < 2 then [] else successTrace ?same 0x2000)\<rparr>)"
    by (rule comparison_stage_outcome [OF generic_struct_simps(1,2) size alloc init,
          THEN conjunct1, rule_format])
      (simp only: same bytes [OF t])
  have r3: "validateExternalGenericMetadataBuilder ?eng ?mixed 0x2000 generic_struct 0x4000
              quiet_world =
            (FatalError 0 (''Fatal error: mismatched metadata.'' @ [CHR 0x0A]),
             (?w3 quiet_world)\<lparr>err := err (?w3 quiet_world) @
               mismatchReport ?mixed 0x2000 0x1000 0 (?w3 quiet_world)\<rparr>)"
    by (rule comparison_stage_outcome [OF generic_struct_simps(1,2) size alloc init,
          THEN conjunct2, rule_format])
      (simp only: mixed simp_thms)
  have report: "mismatchReport ?mixed 0x2000 0x1000 0 (?w3 quiet_world) =
      validationLine ''VWTs do not match'' [] @
      validationLine ''Error! Mismatch between new/old metadata builders!'' [] @
      validationLine ''Original metadata:'' [] @
      [Fprintf ''Metadata %p'' [PointerArg 0x2000]] @
      validationLine ''New metadata builder:'' [] @
      [Fprintf ''Metadata %p'' [PointerArg 0x1000]]"
    unfolding mismatchReport_def using mixed [of quiet_world] bytes [OF q, of mixed_tables]
    by (simp add: dumpText_def dumpErrorLine_def example_abi_def)
  show ?thesis
    unfolding r1 r2 r3 report
    by (simp add: quiet_world_def tracing_world_def log_def emit_def successTrace_def
          example_abi_def)
qed

text \<open>
  C5. For a generic value type descriptor: if the computation of the extra data size
  returns an error, or the allocation of the metadata returns an error, or the two-phase
  initialization returns an error, the harness logs the error and returns. The size and
  allocation errors go through \<^verbatim>\<open>validationLog\<close>, the initialization error is printed
  by \<^verbatim>\<open>initializeGenericValueMetadata\<close>. The resulting state does not depend on the
  value witness tables, on the bytes of the records or on anything else the comparison
  uses (the parameter \<open>abi\<close>): no comparison takes place, and the process is not terminated.
\<close>

theorem builder_errors_end_validation:
  assumes "isValueTypeDescriptor description" "isGeneric description"
  shows "(\<forall>error w1.
            genericValueDataExtraSize eng description (DefaultInstantiationPattern description) w =
              (Inl error, w1) \<longrightarrow>
            validateExternalGenericMetadataBuilder eng abi original description arguments w =
              (Returned,
               validationLog False ''error getting extra data size: %s'' [StringArg error] w1)) \<and>
         (\<forall>extraDataSize' w1 error w2.
            genericValueDataExtraSize eng description (DefaultInstantiationPattern description) w =
              (Inr extraDataSize', w1) \<and>
            allocateGenericValueMetadata eng description arguments
              (DefaultInstantiationPattern description) extraDataSize' w1 = (Inl error, w2) \<longrightarrow>
            validateExternalGenericMetadataBuilder eng abi original description arguments w =
              (Returned,
               validationLog False ''error allocating metadata: %s'' [StringArg error] w2)) \<and>
         (\<forall>extraDataSize' w1 newMetadata w2 error w3.
            genericValueDataExtraSize eng description (DefaultInstantiationPattern description) w =
              (Inr extraDataSize', w1) \<and>
            allocateGenericValueMetadata eng description arguments
              (DefaultInstantiationPattern description) extraDataSize' w1 = (Inr newMetadata, w2) \<and>
            run eng (initializeGenericMetadata eng newMetadata) w2 = (Some error, w3) \<longrightarrow>
            validateExternalGenericMetadataBuilder eng abi original description arguments w =
              (Returned,
               emit [Fprintf ''swift_initializeGenericValueMetadata failed: %s'' [StringArg error]]
                 w3))"
  using assms
  by (simp add: validateExternalGenericMetadataBuilder_def dyn_cast_ValueTypeDescriptor_def
        initializeGenericValueMetadata_def)

theorem builder_errors_end_validation_witness:
  "validateExternalGenericMetadataBuilder (example_engine (Inl ''bad pattern'') None None)
     (example_abi mixed_tables) 0x2000 generic_struct 0x4000 tracing_world =
     (Returned,
      tracing_world\<lparr>err := validationLine ''error getting extra data size: %s''
                              [StringArg ''bad pattern'']\<rparr>) \<and>
   validateExternalGenericMetadataBuilder (example_engine (Inr 0) (Some ''no pattern'') None)
     (example_abi mixed_tables) 0x2000 generic_struct 0x4000 tracing_world =
     (Returned,
      tracing_world\<lparr>err := validationLine ''error allocating metadata: %s''
                              [StringArg ''no pattern'']\<rparr>) \<and>
   validateExternalGenericMetadataBuilder (example_engine (Inr 0) None (Some ''no symbol''))
     (example_abi mixed_tables) 0x2000 generic_struct 0x4000 quiet_world =
     (Returned,
      quiet_world\<lparr>err := [Fprintf ''swift_initializeGenericValueMetadata failed: %s''
                             [StringArg ''no symbol'']],
        allocations := [(0x1000, 16)]\<rparr>)"
proof -
  note inst = builder_errors_end_validation [OF generic_struct_simps(1,2),
      where abi = "example_abi mixed_tables" and original = "0x2000" and arguments = "0x4000"]
  have a: "validateExternalGenericMetadataBuilder (example_engine (Inl ''bad pattern'') None None)
     (example_abi mixed_tables) 0x2000 generic_struct 0x4000 tracing_world =
     (Returned, validationLog False ''error getting extra data size: %s'' [StringArg ''bad pattern'']
        tracing_world)"
    using inst [where eng = "example_engine (Inl ''bad pattern'') None None" and w = tracing_world]
    by (simp add: example_size)
  have b: "validateExternalGenericMetadataBuilder (example_engine (Inr 0) (Some ''no pattern'') None)
     (example_abi mixed_tables) 0x2000 generic_struct 0x4000 tracing_world =
     (Returned, validationLog False ''error allocating metadata: %s'' [StringArg ''no pattern'']
        tracing_world)"
    using inst [where eng = "example_engine (Inr 0) (Some ''no pattern'') None" and w = tracing_world]
    by (simp add: example_size example_allocate_error)
  have c: "validateExternalGenericMetadataBuilder (example_engine (Inr 0) None (Some ''no symbol''))
     (example_abi mixed_tables) 0x2000 generic_struct 0x4000 quiet_world =
     (Returned,
      emit [Fprintf ''swift_initializeGenericValueMetadata failed: %s'' [StringArg ''no symbol'']]
        (quiet_world\<lparr>allocations := [(0x1000, 16)]\<rparr>))"
    using inst [where eng = "example_engine (Inr 0) None (Some ''no symbol'')" and w = quiet_world]
    by (simp add: example_size example_allocate example_initialize log_def quiet_world_def)
  show ?thesis
    using a b c
    by (simp add: validationLog_trace emit_def tracing_world_def quiet_world_def)
qed

subsection \<open>Diagnostics with tracing off\<close>

lemma run_quiet:
  "debugLevel w < 2 \<Longrightarrow>
   err (snd (run eng k w)) = err w \<and> debugLevel (snd (run eng k w)) = debugLevel w"
  by (induction k arbitrary: w) (simp_all add: log_def allocate_def Let_def)

lemma run_quiet_result:
  assumes "debugLevel w < 2" "run eng k w = (r, w')"
  shows "err w' = err w" "debugLevel w' = debugLevel w"
  using run_quiet [OF assms(1), of eng k] assms(2) by simp_all

text \<open>With a debug level below 2, a call of the harness that returns has written nothing,
  unless the initialization failed: then it has written the message of
  \<^verbatim>\<open>initializeGenericValueMetadata\<close>, which does not go through \<^verbatim>\<open>validationLog\<close>
  as the messages of the two other error paths do.\<close>

lemma tracing_off_returns_quietly:
  assumes quiet: "debugLevel w < 2"
    and ret: "validateExternalGenericMetadataBuilder eng abi original description arguments w =
           (Returned, w')"
  shows "err w' = err w \<or>
         (\<exists>error. err w' =
            err w @ [Fprintf ''swift_initializeGenericValueMetadata failed: %s'' [StringArg error]])"
proof (cases "isValueTypeDescriptor description \<and> isGeneric description")
  case False
  then show ?thesis
    using ret validate_skips [of description eng abi original arguments w] by auto
next
  case True
  obtain r1 w1 where size: "genericValueDataExtraSize eng description
      (DefaultInstantiationPattern description) w = (r1, w1)"
    by force
  have q1: "err w1 = err w" "debugLevel w1 = debugLevel w"
    using run_quiet_result [OF quiet size [unfolded genericValueDataExtraSize_def]] .
  show ?thesis
  proof (cases r1)
    case (Inl error)
    then show ?thesis
      using ret True size q1 quiet
      by (simp add: validateExternalGenericMetadataBuilder_def dyn_cast_ValueTypeDescriptor_def
            validationLog_def)
  next
    case (Inr extra)
    obtain r2 w2 where build: "run eng (buildGenericValueMetadata eng description arguments
        (DefaultInstantiationPattern description) extra) w1 = (r2, w2)"
      by force
    have q2: "err w2 = err w" "debugLevel w2 = debugLevel w"
      using run_quiet_result [OF _ build] q1 quiet by simp_all
    show ?thesis
    proof (cases r2)
      case (Inl error)
      then show ?thesis
        using ret True size Inr build q2 quiet
        by (simp add: validateExternalGenericMetadataBuilder_def dyn_cast_ValueTypeDescriptor_def
              allocateGenericValueMetadata_def validationLog_def)
    next
      case built: (Inr dataOffset)
      obtain data offset where dataOffset: "dataOffset = (data, offset)"
        by force
      obtain r3 w3
        where init: "run eng (initializeGenericMetadata eng (ptr data + offset)) w2 = (r3, w3)"
        by force
      have q3: "err w3 = err w" "debugLevel w3 = debugLevel w"
        using run_quiet_result [OF _ init] q2 quiet by simp_all
      show ?thesis
      proof (cases r3)
        case (Some error)
        then show ?thesis
          using ret True size Inr build built dataOffset init q3
          by (auto simp: validateExternalGenericMetadataBuilder_def dyn_cast_ValueTypeDescriptor_def
                allocateGenericValueMetadata_def initializeGenericValueMetadata_def emit_def)
      next
        case None
        have cmp: "compareAndReport abi original (ptr data + offset) extra w3 = (Returned, w')"
          using ret True size Inr build built dataOffset init None
          by (simp add: validateExternalGenericMetadataBuilder_def dyn_cast_ValueTypeDescriptor_def
                allocateGenericValueMetadata_def initializeGenericValueMetadata_def)
        have "vwtsMatch abi original (ptr data + offset) w3 \<and>
              bytesMatch abi original (ptr data + offset) extra w3"
          using cmp compareAndReport_fail [of abi original "ptr data + offset" w3 extra] by auto
        then show ?thesis
          using cmp compareAndReport_pass [of abi original "ptr data + offset" w3 extra] q3 quiet
          by auto
      qed
    qed
  qed
qed

text \<open>
  C8. With the debug level 0, the harness is to write no diagnostic text on a path that
  does not end in the fatal error. The code does write on one such path: the debug level is
  0, the descriptor is a generic value type descriptor, the extra data size is computed and
  the metadata is allocated, and the initialization returns an error. The call returns, and
  the diagnostic stream holds the message of \<^verbatim>\<open>initializeGenericValueMetadata\<close>.
\<close>

theorem initialize_error_written_with_tracing_off:
  "debugLevel quiet_world = 0 \<and>
   validateExternalGenericMetadataBuilder (example_engine (Inr 0) None (Some ''no symbol''))
     (example_abi (\<lambda>a. struct_table)) 0x2000 generic_struct 0x4000 quiet_world =
     (Returned,
      quiet_world\<lparr>err := [Fprintf ''swift_initializeGenericValueMetadata failed: %s''
                             [StringArg ''no symbol'']],
        allocations := [(0x1000, 16)]\<rparr>)"
  by (simp add: validateExternalGenericMetadataBuilder_def dyn_cast_ValueTypeDescriptor_def
        generic_struct_simps example_size example_allocate initializeGenericValueMetadata_def
        example_initialize log_def emit_def quiet_world_def)

end
